theory Spec2Isabelle
  imports Main "HOL-Library.Sublist"
begin

section \<open>Strings\<close>

text \<open>
  A JavaScript string is modelled as a \<^typ>\<open>string\<close> whose characters are the code units
  U+0000 to U+00FF, one \<^typ>\<open>char\<close> per code unit. Every string literal of the two source
  files lies in this range (the accented letters of the Portuguese messages are written
  \<open>CHR 0x..\<close>).
\<close>

text \<open>\<open>s.startsWith(sub)\<close>, used to define \<open>includes_str\<close>.\<close>

fun starts_with :: "string \<Rightarrow> string \<Rightarrow> bool" where
  "starts_with s [] = True"
| "starts_with [] (c # sub) = False"
| "starts_with (d # s) (c # sub) = (d = c \<and> starts_with s sub)"

text \<open>\<open>s.includes(sub)\<close>: \<open>sub\<close> occurs in \<open>s\<close> as a contiguous run.\<close>

fun includes_str :: "string \<Rightarrow> string \<Rightarrow> bool" where
  "includes_str [] sub = (sub = [])"
| "includes_str (d # s) sub = (starts_with (d # s) sub \<or> includes_str s sub)"

text \<open>\<open>s.toLowerCase()\<close> on the code units below U+0100: A to Z, and U+00C0 to U+00DE
  without the multiplication sign U+00D7, move up by 32.\<close>

definition is_upper :: "char \<Rightarrow> bool" where
  "is_upper c =
     (let n = (of_char c :: nat)
      in (65 \<le> n \<and> n \<le> 90) \<or> (192 \<le> n \<and> n \<le> 222 \<and> n \<noteq> 215))"

definition lower_char :: "char \<Rightarrow> char" where
  "lower_char c = (if is_upper c then char_of ((of_char c :: nat) + 32) else c)"

definition toLowerCase :: "string \<Rightarrow> string" where
  "toLowerCase s = map lower_char s"

text \<open>\<open>s.trim()\<close> removes white space and line terminators from both ends. Below U+0100
  these are TAB, LF, VT, FF, CR, SPACE and NO-BREAK SPACE.\<close>

definition is_space :: "char \<Rightarrow> bool" where
  "is_space c = ((of_char c :: nat) \<in> {9, 10, 11, 12, 13, 32, 160})"

definition trim :: "string \<Rightarrow> string" where
  "trim s = rev (dropWhile is_space (rev (dropWhile is_space s)))"

section \<open>Thrown values\<close>

text \<open>
  What a \<open>throw\<close> or a rejected promise carries: an \<open>Error\<close> object with its \<open>name\<close>
  and \<open>message\<close>, or a value that is not an \<open>instanceof Error\<close>.
\<close>

datatype thrown = JsError (name: string) (message: string) | NotAnError

definition new_Error :: "string \<Rightarrow> thrown" where
  "new_Error msg = JsError ''Error'' msg"

section \<open>Completion Client (provider/openaiProvider.tsx)\<close>

datatype openai_role = OSystem | OUser | OAssistant

record OpenAIMessage =
  orole :: openai_role
  ocontent :: string

text \<open>The closure variable \<open>messages\<close> of \<open>createOpenAIProvider\<close> is the client's history.\<close>

type_synonym history = "OpenAIMessage list"

text \<open>\<open>init\<close>: \<open>messages.length = 0\<close>, then one system entry when the prompt text is truthy,
  that is, not the empty string.\<close>

definition init :: "string \<Rightarrow> history \<Rightarrow> history" where
  "init initialPrompts h =
     (let h0 = [] in
      if initialPrompts \<noteq> [] then h0 @ [\<lparr>orole = OSystem, ocontent = initialPrompts\<rparr>]
      else h0)"

text \<open>
  What happens while a request is in flight. The completion API delivers a chunk
  (\<open>Chunk c stop\<close>: \<open>c\<close> is \<open>chunk.choices[0]?.delta?.content || ''\<close>, \<open>stop\<close> is
  \<open>chunk.choices[0]?.finish_reason === 'stop'\<close>), or its iterator throws (\<open>Fails\<close>); or,
  aside from the API, the user presses Cancel (\<open>Abort\<close>, which runs \<open>abortChatMessage\<close>)
  or the wall clock read by \<open>Date.now()\<close> moves (\<open>Tick\<close>). The end of the event list is
  the end of the API's stream.
\<close>

datatype aside = Abort | Tick nat

datatype stream_event = Chunk string bool | Fails thrown | Aside aside

text \<open>How \<open>openai.chat.completions.create\<close> settles.\<close>

datatype create_result = Rejects thrown | Resolves

text \<open>The first, synchronous part of \<open>prompt\<close>: the user entry is pushed, and
  \<open>create\<close> is called with a copy of the whole history
  (\<open>messages.map(m => ({role, content}))\<close>). The result is the history and that payload.\<close>

definition request_payload :: "history \<Rightarrow> OpenAIMessage list" where
  "request_payload h = map (\<lambda>m. \<lparr>orole = orole m, ocontent = ocontent m\<rparr>) h"

definition prompt_issue :: "string \<Rightarrow> history \<Rightarrow> history \<times> OpenAIMessage list" where
  "prompt_issue text h =
     (let h1 = h @ [\<lparr>orole = OUser, ocontent = text\<rparr>]
      in (h1, request_payload h1))"

text \<open>The outer \<open>catch\<close> of \<open>prompt\<close>: the error thrown to the caller, given whether the
  signal is aborted.\<close>

definition msg_aborted :: string where
  "msg_aborted = ''Request aborted by user''"

definition msg_quota :: string where
  "msg_quota = ''Cota de uso da OpenAI foi excedida. Verifique seu plano ou aguarde.''"

definition msg_rate :: string where
  "msg_rate = ''Muitas requisi'' @ [CHR 0xE7, CHR 0xF5] @
     ''es. Aguarde um momento antes de tentar novamente.''"

definition msg_api_key :: string where
  "msg_api_key = ''Chave de API inv'' @ [CHR 0xE1] @ ''lida. Verifique sua OPENAI_API_KEY.''"

definition msg_unknown :: string where
  "msg_unknown = ''Erro desconhecido ao processar mensagem com OpenAI.''"

definition prompt_catch :: "bool \<Rightarrow> thrown \<Rightarrow> thrown" where
  "prompt_catch aborted err =
     (if aborted then new_Error msg_aborted
      else case err of
        JsError nm msg \<Rightarrow>
          if nm = ''AbortError'' then new_Error msg_aborted
          else if includes_str msg ''quota'' then new_Error msg_quota
          else if includes_str msg ''rate'' then new_Error msg_rate
          else if includes_str msg ''api_key'' then new_Error msg_api_key
          else err
      | NotAnError \<Rightarrow> new_Error msg_unknown)"

text \<open>
  The \<open>start\<close> callback of the returned \<open>ReadableStream\<close>. It runs over the events with
  the state of the signal and the accumulated \<open>assistantMessage\<close>, and yields what the
  reader of the stream sees, in order: each enqueued fragment (\<open>Value\<close>) and, between
  them, the asides (\<open>Outside\<close>, which do not pass through the stream but happen at
  that point); how the stream ends (\<open>controller.close()\<close> or \<open>controller.error(e)\<close>); and
  the history afterwards.
\<close>

datatype delivery = Value string | Outside aside

datatype stream_end = Closed | Errored thrown

fun start :: "stream_event list \<Rightarrow> bool \<Rightarrow> string \<Rightarrow> history
    \<Rightarrow> delivery list \<times> stream_end \<times> history" where
  "start [] aborted assistantMessage h =
     ([], Closed,
      if assistantMessage \<noteq> [] then h @ [\<lparr>orole = OAssistant, ocontent = assistantMessage\<rparr>]
      else h)"
| "start (Aside Abort # evs) aborted assistantMessage h =
     (case start evs True assistantMessage h of
        (ds, e, h') \<Rightarrow> (Outside Abort # ds, e, h'))"
| "start (Aside (Tick n) # evs) aborted assistantMessage h =
     (case start evs aborted assistantMessage h of
        (ds, e, h') \<Rightarrow> (Outside (Tick n) # ds, e, h'))"
| "start (Chunk c stop # evs) aborted assistantMessage h =
     (if aborted then ([], Closed, h)
      else
        let assistantMessage' = (if c \<noteq> [] then assistantMessage @ c else assistantMessage);
            enqueued = (if c \<noteq> [] then [Value c] else [])
        in if stop
           then (enqueued, Closed,
                 h @ [\<lparr>orole = OAssistant, ocontent = assistantMessage'\<rparr>])
           else (case start evs aborted assistantMessage' h of
                   (ds, e, h') \<Rightarrow> (enqueued @ ds, e, h')))"
| "start (Fails err # evs) aborted assistantMessage h =
     (if aborted then ([], Closed, h) else ([], Errored err, h))"

text \<open>The second part of \<open>prompt\<close>, once \<open>create\<close> has settled: \<open>aborted\<close> says whether the
  signal was aborted by then.\<close>

definition prompt_settle :: "bool \<Rightarrow> create_result \<Rightarrow> stream_event list \<Rightarrow> history
    \<Rightarrow> (thrown + delivery list \<times> stream_end) \<times> history" where
  "prompt_settle aborted res evs h =
     (case res of
        Rejects err \<Rightarrow> (Inl (prompt_catch aborted err), h)
      | Resolves \<Rightarrow>
          (case start evs aborted [] h of (ds, e, h') \<Rightarrow> (Inr (ds, e), h')))"

text \<open>\<open>prompt(text, signal)\<close> as a whole: what the caller gets (the error thrown, or the
  stream), the history afterwards, and the payload that went out.\<close>

definition prompt :: "string \<Rightarrow> bool \<Rightarrow> create_result \<Rightarrow> stream_event list \<Rightarrow> history
    \<Rightarrow> (thrown + delivery list \<times> stream_end) \<times> history \<times> OpenAIMessage list" where
  "prompt text aborted res evs h =
     (case prompt_issue text h of
        (h1, payload) \<Rightarrow>
          (case prompt_settle aborted res evs h1 of (r, h2) \<Rightarrow> (r, h2, payload)))"

text \<open>A series of calls of \<open>prompt\<close> on the same client: the history at the end and the
  payloads that went out, in order.\<close>

fun prompt_calls :: "(string \<times> bool \<times> create_result \<times> stream_event list) list \<Rightarrow> history
    \<Rightarrow> history \<times> OpenAIMessage list list" where
  "prompt_calls [] h = (h, [])"
| "prompt_calls ((text, aborted, res, evs) # calls) h =
     (case prompt text aborted res evs h of
        (r, h2, payload) \<Rightarrow>
          (case prompt_calls calls h2 of (h3, payloads) \<Rightarrow> (h3, payload # payloads)))"

section \<open>Messages (hooks/useChatbot.tsx)\<close>

datatype role = User | Assistant | System | Error

record Message =
  role :: role
  content :: string
  timestamp :: nat
  error :: "bool option"

text \<open>The optional field \<open>error?: boolean\<close> is \<open>None\<close> when the object has no such field.\<close>

section \<open>Persistence Store (the \<open>storage\<close> object of hooks/useChatbot.tsx)\<close>

text \<open>JSON values; of the numbers, the naturals, which is what a timestamp is.\<close>

datatype json =
    JNull
  | JBool bool
  | JNumber nat
  | JString string
  | JArray "json list"
  | JObject "(string \<times> json) list"

text \<open>
  The text stored under the key \<open>chatbot_messages_openai\<close>, by what \<open>JSON.parse\<close> makes
  of it: the empty string, a text that is not JSON, or the JSON text of a value. The item
  itself is \<open>None\<close> when the key is absent (\<open>getItem\<close> returns \<open>null\<close>). Writes to the store
  are taken to succeed.
\<close>

datatype stored_text = EmptyText | Invalid | Valid json

definition role_name :: "role \<Rightarrow> string" where
  "role_name r =
     (case r of User \<Rightarrow> ''user'' | Assistant \<Rightarrow> ''assistant''
      | System \<Rightarrow> ''system'' | Error \<Rightarrow> ''error'')"

text \<open>\<open>JSON.stringify\<close> of one message: a field that is \<open>undefined\<close> is left out.\<close>

definition stringify_message :: "Message \<Rightarrow> json" where
  "stringify_message m =
     JObject ([(''role'', JString (role_name (role m))),
               (''content'', JString (content m)),
               (''timestamp'', JNumber (timestamp m))]
              @ (case error m of None \<Rightarrow> [] | Some b \<Rightarrow> [(''error'', JBool b)]))"

definition JSON_stringify :: "Message list \<Rightarrow> stored_text" where
  "JSON_stringify ms = Valid (JArray (map stringify_message ms))"

text \<open>\<open>JSON.parse\<close> throws a \<open>SyntaxError\<close> on the empty string and on text that is not
  JSON.\<close>

definition JSON_parse :: "stored_text \<Rightarrow> thrown + json" where
  "JSON_parse t =
     (case t of
        EmptyText \<Rightarrow> Inl (JsError ''SyntaxError'' ''Unexpected end of JSON input'')
      | Invalid \<Rightarrow> Inl (JsError ''SyntaxError'' ''Unexpected token'')
      | Valid v \<Rightarrow> Inr v)"

text \<open>\<open>localStorage.getItem(key) || "[]"\<close>: \<open>null\<close> and the empty string are falsy.\<close>

definition item_or_default :: "stored_text option \<Rightarrow> stored_text" where
  "item_or_default item =
     (case item of
        None \<Rightarrow> Valid (JArray [])
      | Some EmptyText \<Rightarrow> Valid (JArray [])
      | Some t \<Rightarrow> t)"

text \<open>\<open>storage.getMessages()\<close>: the parsed value, or the empty array when parsing throws.
  The return type \<open>Message[]\<close> of the source is an annotation; nothing checks the parsed
  value against it.\<close>

definition getMessages :: "stored_text option \<Rightarrow> json" where
  "getMessages item =
     (case JSON_parse (item_or_default item) of
        Inr v \<Rightarrow> v
      | Inl e \<Rightarrow> JArray [])"

definition storage_saveMessages :: "Message list \<Rightarrow> stored_text option" where
  "storage_saveMessages ms = Some (JSON_stringify ms)"

definition clearMessages :: "stored_text option" where
  "clearMessages = None"

text \<open>Reading a parsed value as the \<open>Message\<close> it is typed as; for a repeated key
  \<open>JSON.parse\<close> keeps the last value.\<close>

definition role_of_name :: "string \<Rightarrow> role option" where
  "role_of_name n =
     (if n = ''user'' then Some User
      else if n = ''assistant'' then Some Assistant
      else if n = ''system'' then Some System
      else if n = ''error'' then Some Error
      else None)"

definition as_message :: "json \<Rightarrow> Message option" where
  "as_message j =
     (case j of
        JObject fs \<Rightarrow>
          (let f = map_of (rev fs) in
           case (f ''role'', f ''content'', f ''timestamp'') of
             (Some (JString r), Some (JString c), Some (JNumber t)) \<Rightarrow>
               (case role_of_name r of
                  Some ro \<Rightarrow>
                    Some \<lparr>role = ro, content = c, timestamp = t,
                          error = (case f ''error'' of Some (JBool b) \<Rightarrow> Some b | _ \<Rightarrow> None)\<rparr>
                | None \<Rightarrow> None)
           | _ \<Rightarrow> None)
      | _ \<Rightarrow> None)"

definition as_messages :: "json list \<Rightarrow> Message list option" where
  "as_messages js = those (map as_message js)"

section \<open>Session Core (the hook \<open>useChatbot\<close>)\<close>

text \<open>
  The state the hook works on: its two React states, the store, the history held by the
  Completion Client it created, the wall clock, and a log of the payloads passed to
  \<open>openai.chat.completions.create\<close>, oldest first. State updates are applied in program
  order; the \<open>messages\<close> a call of \<open>sendMessage\<close> closes over is the state at the call.
\<close>

record session =
  messages :: "Message list"
  loading :: bool
  storage :: "stored_text option"
  history :: history
  requests :: "OpenAIMessage list list"
  now :: nat

definition text_api_key :: string where
  "text_api_key = ''Chave de API da OpenAI inv'' @ [CHR 0xE1] @
     ''lida. Verifique sua OPENAI_API_KEY no arquivo .env''"

definition text_quota :: string where
  "text_quota = ''Cota de uso da OpenAI foi excedida. Verifique seu plano ou adicione cr''
     @ [CHR 0xE9] @ ''ditos.''"

definition text_rate :: string where
  "text_rate = ''Muitas requisi'' @ [CHR 0xE7, CHR 0xF5] @
     ''es. Aguarde um momento antes de tentar novamente.''"

definition text_network :: string where
  "text_network = ''Erro de conex'' @ [CHR 0xE3] @
     ''o. Verifique sua internet e tente novamente.''"

definition text_limit :: string where
  "text_limit = ''Voc'' @ [CHR 0xEA] @
     '' atingiu o limite de mensagens desta conversa. Limpe o chat para continuar.''"

definition text_aborted :: string where
  "text_aborted = ''Mensagem cancelada pelo usu'' @ [CHR 0xE1] @ ''rio.''"

definition text_timeout :: string where
  "text_timeout = ''A requisi'' @ [CHR 0xE7, CHR 0xE3] @
     ''o demorou muito para responder. Tente novamente.''"

definition text_model :: string where
  "text_model = ''Modelo especificado n'' @ [CHR 0xE3] @ ''o existe ou voc'' @ [CHR 0xEA]
     @ '' n'' @ [CHR 0xE3] @ ''o tem acesso a ele.''"

definition text_unexpected :: string where
  "text_unexpected = ''Ocorreu um erro inesperado. Tente novamente.''"

definition text_cancelled :: string where
  "text_cancelled = ''Mensagem cancelada. Voc'' @ [CHR 0xEA] @
     '' pode enviar uma nova mensagem.''"

definition text_limit_reached :: string where
  "text_limit_reached = ''Limite de mensagens atingido''"

definition text_no_answer :: string where
  "text_no_answer = ''Nenhuma resposta foi gerada pelo modelo''"

definition getErrorMessage :: "thrown \<Rightarrow> string" where
  "getErrorMessage err =
     (case err of
        JsError nm msg \<Rightarrow>
          (let m = toLowerCase msg in
           if includes_str m ''api key'' \<or> includes_str m ''api_key'' then text_api_key
           else if includes_str m ''quota'' \<or> includes_str m ''insufficient_quota''
             then text_quota
           else if includes_str m ''rate'' then text_rate
           else if includes_str m ''failed to fetch'' \<or> includes_str m ''network''
             then text_network
           else if includes_str m ''limite de mensagens atingido'' then text_limit
           else if includes_str m ''request aborted'' \<or> includes_str m ''aborted''
             then text_aborted
           else if includes_str m ''timeout'' then text_timeout
           else if includes_str m ''model'' \<and> includes_str m ''does not exist''
             then text_model
           else msg)
      | NotAnError \<Rightarrow> text_unexpected)"

text \<open>The effect run on mount: \<open>savedMessages.length > 0\<close>, then
  \<open>setMessages(savedMessages)\<close>. \<open>None\<close> marks the stored values on which the effect
  leaves the typed state (\<open>null.length\<close> raises; a non-empty string, an array of other
  things, or an object whose \<open>length\<close> field compares greater than 0 would be set as
  \<open>messages\<close>), and the objects whose \<open>length\<close> field is a non-empty string, an array
  or an object, where the comparison rests on a coercion that is not followed here. A
  number and a boolean have no \<open>length\<close>; of an object's \<open>length\<close> field, \<open>null\<close>,
  \<open>false\<close>, 0 and the empty string do not compare greater than 0.\<close>

definition mount :: "session \<Rightarrow> session option" where
  "mount s =
     (case getMessages (storage s) of
        JArray js \<Rightarrow>
          (if length js > 0
           then (case as_messages js of
                   Some savedMessages \<Rightarrow> Some (s\<lparr>messages := savedMessages\<rparr>)
                 | None \<Rightarrow> None)
           else Some s)
      | JString str \<Rightarrow> (if length str > 0 then None else Some s)
      | JNull \<Rightarrow> None
      | JBool b \<Rightarrow> Some s
      | JNumber n \<Rightarrow> Some s
      | JObject fs \<Rightarrow>
          (case map_of (rev fs) ''length'' of
             None \<Rightarrow> Some s
           | Some JNull \<Rightarrow> Some s
           | Some (JBool b) \<Rightarrow> (if b then None else Some s)
           | Some (JNumber n) \<Rightarrow> (if n > 0 then None else Some s)
           | Some (JString str) \<Rightarrow> (if str = [] then Some s else None)
           | Some (JArray js) \<Rightarrow> None
           | Some (JObject gs) \<Rightarrow> None))"

definition saveMessages :: "Message list \<Rightarrow> session \<Rightarrow> session" where
  "saveMessages newMessages s =
     (let messagesWithoutSystem = filter (\<lambda>m. role m \<noteq> System) newMessages
      in s\<lparr>storage := storage_saveMessages messagesWithoutSystem\<rparr>)"

definition addErrorMessage :: "thrown \<Rightarrow> session \<Rightarrow> session" where
  "addErrorMessage err s =
     (let errorMessage = \<lparr>role = Error, content = getErrorMessage err,
                          timestamp = now s, error = Some True\<rparr>;
          updated = messages s @ [errorMessage]
      in saveMessages updated (s\<lparr>messages := updated\<rparr>))"

text \<open>The hook's \<open>init\<close>: \<open>fetched\<close> is the text of the prompts file when the fetch
  succeeded with \<open>res.ok\<close>. The client's \<open>init\<close> does not throw.\<close>

definition useChatbot_init :: "string option \<Rightarrow> session \<Rightarrow> session" where
  "useChatbot_init fetched s =
     (let initialPrompts = (case fetched of Some t \<Rightarrow> t | None \<Rightarrow> [])
      in s\<lparr>history := init initialPrompts (history s)\<rparr>)"

definition clearChat :: "session \<Rightarrow> session" where
  "clearChat s = s\<lparr>messages := [], storage := clearMessages\<rparr>"

text \<open>\<open>abortChatMessage\<close>, as far as the session goes; that the signal of the request in
  flight is now aborted is tracked where the events are run.\<close>

definition abortChatMessage :: "session \<Rightarrow> session" where
  "abortChatMessage s =
     (let cancelMessage = \<lparr>role = Error, content = text_cancelled,
                           timestamp = now s, error = Some True\<rparr>;
          updated = messages s @ [cancelMessage]
      in saveMessages updated (s\<lparr>messages := updated\<rparr>))"

definition aside_step :: "aside \<Rightarrow> session \<Rightarrow> session" where
  "aside_step u s = (case u of Abort \<Rightarrow> abortChatMessage s | Tick n \<Rightarrow> s\<lparr>now := n\<rparr>)"

fun aside_steps :: "aside list \<Rightarrow> session \<Rightarrow> session" where
  "aside_steps [] s = s"
| "aside_steps (u # us) s = aside_steps us (aside_step u s)"

text \<open>The updater run for each chunk read. On an empty list the source would read
  \<open>.role\<close> of \<open>undefined\<close>; during a send the list holds at least the placeholder.\<close>

definition on_chunk :: "string \<Rightarrow> session \<Rightarrow> session" where
  "on_chunk chunk s =
     (let updated = messages s in
      if updated = [] then s
      else
        let l = last updated;
            updated' = (if role l = Assistant
                        then butlast updated @ [l\<lparr>content := content l @ chunk\<rparr>]
                        else updated)
        in saveMessages updated' (s\<lparr>messages := updated'\<rparr>))"

text \<open>The \<open>while (true)\<close> loop over \<open>reader.read()\<close>, with \<open>hasContent\<close>; it ends when the
  stream is done.\<close>

fun read_loop :: "delivery list \<Rightarrow> bool \<Rightarrow> session \<Rightarrow> bool \<times> session" where
  "read_loop [] hasContent s = (hasContent, s)"
| "read_loop (Value chunk # ds) hasContent s =
     read_loop ds (if trim chunk \<noteq> [] then True else hasContent) (on_chunk chunk s)"
| "read_loop (Outside u # ds) hasContent s = read_loop ds hasContent (aside_step u s)"

text \<open>The updater of both failure branches: the last message goes when it is an assistant
  message whose trimmed content is empty.\<close>

definition pop_blank :: "Message list \<Rightarrow> Message list" where
  "pop_blank prev =
     (if prev \<noteq> [] \<and> role (last prev) = Assistant \<and> trim (content (last prev)) = []
      then butlast prev else prev)"

definition says_aborted :: "thrown \<Rightarrow> bool" where
  "says_aborted err =
     (case err of JsError nm msg \<Rightarrow> includes_str msg ''aborted'' | NotAnError \<Rightarrow> False)"

text \<open>The \<open>catch\<close> block of \<open>sendMessage\<close>, then \<open>finally\<close>. Both branches hand
  updaters to \<open>setMessages\<close>, which run when React next renders; the synchronous
  \<open>saveMessages(updatedMessages)\<close> that ends the block reaches the store before the saves
  those updaters make.\<close>

definition catch_block :: "Message list \<Rightarrow> thrown \<Rightarrow> session \<Rightarrow> session" where
  "catch_block updatedMessages err s =
     (let s0 = saveMessages updatedMessages s
      in if says_aborted err
         then (let updated = pop_blank (messages s0)
               in saveMessages updated (s0\<lparr>messages := updated\<rparr>))
         else addErrorMessage err (s0\<lparr>messages := pop_blank (messages s0)\<rparr>))"

definition finally_block :: "session \<Rightarrow> session" where
  "finally_block s = s\<lparr>loading := False\<rparr>"

definition userMessage :: "string \<Rightarrow> session \<Rightarrow> Message" where
  "userMessage text s = \<lparr>role = User, content = text, timestamp = now s, error = None\<rparr>"

text \<open>\<open>sendMessage\<close> past the limit check, up to the point where it waits for
  \<open>chatProvider.prompt\<close>: the user entry is in the client's history and the request is
  out.\<close>

definition send_issue :: "string \<Rightarrow> session \<Rightarrow> session" where
  "send_issue text s =
     (let updatedMessages = messages s @ [userMessage text s]
      in case prompt_issue text (history s) of
           (h, payload) \<Rightarrow>
             s\<lparr>loading := True, messages := updatedMessages, history := h,
               requests := requests s @ [payload]\<rparr>)"

text \<open>The rest of \<open>sendMessage\<close>: \<open>pre\<close> are the asides while the request is
  pending, \<open>res\<close> is how it settles, \<open>evs\<close> is what happens while the stream is read.\<close>

definition send_settle :: "Message list \<Rightarrow> aside list \<Rightarrow> create_result
    \<Rightarrow> stream_event list \<Rightarrow> session \<Rightarrow> session" where
  "send_settle updatedMessages pre res evs s =
     (let s1 = aside_steps pre s;
          aborted = (Abort \<in> set pre)
      in case prompt_settle aborted res evs (history s1) of
           (Inl err, h) \<Rightarrow> finally_block (catch_block updatedMessages err (s1\<lparr>history := h\<rparr>))
         | (Inr (ds, e), h) \<Rightarrow>
             (let botMessage = \<lparr>role = Assistant, content = [], timestamp = now s1,
                                error = None\<rparr>;
                  messagesWithBot = updatedMessages @ [botMessage];
                  s2 = s1\<lparr>history := h, messages := messagesWithBot\<rparr>
              in case read_loop ds False s2 of
                   (hasContent, s3) \<Rightarrow>
                     (case e of
                        Errored err \<Rightarrow> finally_block (catch_block updatedMessages err s3)
                      | Closed \<Rightarrow>
                          if \<not> hasContent
                          then finally_block (catch_block updatedMessages
                                          (new_Error text_no_answer) s3)
                          else finally_block s3)))"

definition sendMessage :: "int \<Rightarrow> string \<Rightarrow> aside list \<Rightarrow> create_result
    \<Rightarrow> stream_event list \<Rightarrow> session \<Rightarrow> session" where
  "sendMessage limit text pre res evs s =
     (if int (length (messages s)) > limit
      then addErrorMessage (new_Error text_limit_reached) s
      else send_settle (messages s @ [userMessage text s]) pre res evs (send_issue text s))"

text \<open>The hook before anything has happened, over an empty store.\<close>

definition initial :: session where
  "initial = \<lparr>messages = [], loading = False, storage = None, history = [],
               requests = [], now = 0\<rparr>"

text \<open>To compare a payload with a transcript: each entry as the pair of its role, the
  string it is in the source, and its content.\<close>

definition openai_role_name :: "openai_role \<Rightarrow> string" where
  "openai_role_name r =
     (case r of OSystem \<Rightarrow> ''system'' | OUser \<Rightarrow> ''user'' | OAssistant \<Rightarrow> ''assistant'')"

definition sent :: "OpenAIMessage \<Rightarrow> string \<times> string" where
  "sent m = (openai_role_name (orole m), ocontent m)"

definition shown :: "Message \<Rightarrow> string \<times> string" where
  "shown m = (role_name (role m), content m)"

section \<open>Shapes of event lists\<close>

text \<open>
  Vocabulary for the statements below. \<open>fragments es\<close> is the text of the chunks of \<open>es\<close>,
  concatenated; \<open>passed es\<close> is what a reader sees of \<open>es\<close> when every chunk goes through;
  \<open>calm es\<close> says that \<open>es\<close> holds only chunks without \<open>finish_reason\<close> stop and clock
  ticks; \<open>asides us\<close> says that \<open>us\<close> holds no chunk and no failure.
\<close>

fun fragments :: "stream_event list \<Rightarrow> string" where
  "fragments [] = []"
| "fragments (Chunk c stop # evs) = c @ fragments evs"
| "fragments (Fails err # evs) = fragments evs"
| "fragments (Aside u # evs) = fragments evs"

fun passed :: "stream_event list \<Rightarrow> delivery list" where
  "passed [] = []"
| "passed (Chunk c stop # evs) = (if c \<noteq> [] then [Value c] else []) @ passed evs"
| "passed (Fails err # evs) = passed evs"
| "passed (Aside u # evs) = Outside u # passed evs"

fun calm :: "stream_event list \<Rightarrow> bool" where
  "calm [] = True"
| "calm (Chunk c stop # evs) = (\<not> stop \<and> calm evs)"
| "calm (Fails err # evs) = False"
| "calm (Aside Abort # evs) = False"
| "calm (Aside (Tick n) # evs) = calm evs"

fun asides :: "stream_event list \<Rightarrow> bool" where
  "asides [] = True"
| "asides (Aside u # evs) = asides evs"
| "asides (e # evs) = False"

section \<open>The Completion Client: facts about \<open>start\<close> and \<open>prompt\<close>\<close>

lemma start_calm:
  "calm es \<Longrightarrow>
   start (es @ evs) False acc h =
     (case start evs False (acc @ fragments es) h of (ds, e, h') \<Rightarrow> (passed es @ ds, e, h'))"
  by (induction es arbitrary: acc rule: calm.induct) (auto split: prod.splits)

lemma start_Aside:
  "start (Aside u # evs) ab acc h =
   (case start evs (ab \<or> u = Abort) acc h of (ds, e, h') \<Rightarrow> (Outside u # ds, e, h'))"
  by (cases u) (auto split: prod.splits)

lemma start_asides:
  "asides us \<Longrightarrow>
   start (us @ evs) True acc h =
     (case start evs True acc h of (ds, e, h') \<Rightarrow> (passed us @ ds, e, h'))"
  by (induction us rule: asides.induct)
     (auto simp: start_Aside simp del: start.simps split: prod.splits)

lemma request_payload_id: "request_payload h = h"
  by (induction h) (simp_all add: request_payload_def)

lemma start_calm_history:
  "calm es \<Longrightarrow>
   snd (snd (start (es @ evs) False acc h)) = snd (snd (start evs False (acc @ fragments es) h))"
  by (simp add: start_calm split: prod.splits)

lemma start_abort_history:
  "asides us \<Longrightarrow>
   snd (snd (start (Aside Abort # us @ evs) ab acc h)) = snd (snd (start evs True acc h))"
  by (simp add: start_asides split: prod.splits)

lemma prompt_history:
  "fst (snd (prompt t ab Resolves evs h)) =
     snd (snd (start evs ab [] (h @ [\<lparr>orole = OUser, ocontent = t\<rparr>])))"
  by (simp add: prompt_def prompt_issue_def prompt_settle_def Let_def split: prod.splits)

lemma start_prefix: "prefix h (snd (snd (start evs ab acc h)))"
  by (induction evs ab acc h rule: start.induct) (auto split: prod.splits)

lemma prompt_prefix:
  "prefix (h @ [\<lparr>orole = OUser, ocontent = t\<rparr>]) (fst (snd (prompt t ab res evs h)))"
  using start_prefix [of "h @ [\<lparr>orole = OUser, ocontent = t\<rparr>]" evs ab "[]"]
  by (cases res)
     (auto simp: prompt_def prompt_issue_def prompt_settle_def Let_def split: prod.splits)

lemma prompt_payload:
  "snd (snd (prompt t ab res evs h)) = h @ [\<lparr>orole = OUser, ocontent = t\<rparr>]"
  by (simp add: prompt_def prompt_issue_def request_payload_id Let_def split: prod.splits)

lemma prompt_calls_prefix:
  "prefix h0 h \<Longrightarrow>
   prefix h0 (fst (prompt_calls calls h)) \<and>
   (\<forall>p\<in>set (snd (prompt_calls calls h)). prefix h0 p)"
proof (induction calls arbitrary: h)
  case Nil
  then show ?case by simp
next
  case (Cons call calls)
  obtain t ab res evs where call: "call = (t, ab, res, evs)"
    by (cases call) auto
  let ?h2 = "fst (snd (prompt t ab res evs h))"
  have "prefix h ?h2"
    using prompt_prefix [of h t ab res evs] by (meson append_prefixD)
  with Cons.prems have "prefix h0 ?h2" by (rule prefix_order.trans)
  moreover have "prefix h0 (snd (snd (prompt t ab res evs h)))"
    using Cons.prems by (simp add: prompt_payload)
  ultimately show ?case
    using Cons.IH [of ?h2] by (auto simp: call split: prod.splits)
qed

section \<open>Properties of the Completion Client\<close>

text \<open>
  C8. \<open>init\<close> is idempotent, the last call wins: whatever the history was, after
  \<open>init(a)\<close> and then \<open>init(b)\<close> it holds a single system entry with content \<open>b\<close> when
  \<open>b\<close> is not empty, and nothing when \<open>b\<close> is empty.
\<close>

theorem init_last_call_wins:
  "init b (init a h) =
     (if b = [] then [] else [\<lparr>orole = OSystem, ocontent = b\<rparr>])"
  by (simp add: init_def)

text \<open>
  C2, as stated, fails. The fragment \<open>Hel\<close> has been accumulated and enqueued when the user
  cancels; the next chunk finds the signal aborted, the stream is closed, and the history
  holds the user entry only: no assistant entry is committed.
\<close>

theorem prompt_commit_counterexample:
  "prompt ''hi'' False Resolves [Chunk ''Hel'' False, Aside Abort, Chunk ''lo'' False] [] =
     (Inr ([Value ''Hel'', Outside Abort], Closed),
      [\<lparr>orole = OUser, ocontent = ''hi''\<rparr>],
      [\<lparr>orole = OUser, ocontent = ''hi''\<rparr>])"
  by (simp add: prompt_def prompt_issue_def prompt_settle_def request_payload_def Let_def)

text \<open>
  C2, amended. After a calm run \<open>es\<close> of chunks, a chunk with \<open>finish_reason\<close> stop commits
  exactly one assistant entry holding the accumulated text; when the API's stream just
  ends, one is committed if and only if that text is not empty, and so it is when the
  stream ends after a cancellation. When the next chunk, or a failure of the API's stream,
  arrives after the cancellation, nothing is committed, whatever has been accumulated.
  In particular a cancellation before any content adds no assistant entry.
\<close>

theorem prompt_commit:
  assumes "calm es" and "asides us"
  shows "fst (snd (prompt t False Resolves (es @ Chunk c True # rest) h)) =
           h @ [\<lparr>orole = OUser, ocontent = t\<rparr>,
                \<lparr>orole = OAssistant, ocontent = fragments es @ c\<rparr>]
       \<and> fst (snd (prompt t False Resolves es h)) =
           h @ [\<lparr>orole = OUser, ocontent = t\<rparr>] @
           (if fragments es \<noteq> []
            then [\<lparr>orole = OAssistant, ocontent = fragments es\<rparr>] else [])
       \<and> fst (snd (prompt t False Resolves
                     (es @ Aside Abort # us @ Chunk c stop # rest) h)) =
           h @ [\<lparr>orole = OUser, ocontent = t\<rparr>]
       \<and> fst (snd (prompt t False Resolves
                     (es @ Aside Abort # us @ Fails err # rest) h)) =
           h @ [\<lparr>orole = OUser, ocontent = t\<rparr>]
       \<and> fst (snd (prompt t False Resolves (es @ Aside Abort # us) h)) =
           h @ [\<lparr>orole = OUser, ocontent = t\<rparr>] @
           (if fragments es \<noteq> []
            then [\<lparr>orole = OAssistant, ocontent = fragments es\<rparr>] else [])"
proof -
  let ?h1 = "h @ [\<lparr>orole = OUser, ocontent = t\<rparr>]"
  have stop: "snd (snd (start (es @ Chunk c True # rest) False [] ?h1)) =
      ?h1 @ [\<lparr>orole = OAssistant, ocontent = fragments es @ c\<rparr>]"
    using assms(1) by (simp add: start_calm_history)
  have ended: "snd (snd (start es False [] ?h1)) =
      ?h1 @ (if fragments es \<noteq> []
             then [\<lparr>orole = OAssistant, ocontent = fragments es\<rparr>] else [])"
    using start_calm_history [OF assms(1), of "[]" "[]" ?h1] by simp
  have at_chunk: "snd (snd (start (es @ Aside Abort # us @ Chunk c stop # rest)
      False [] ?h1)) = ?h1"
    using assms by (simp add: start_calm_history start_abort_history del: start.simps(2))
  have at_failure: "snd (snd (start (es @ Aside Abort # us @ Fails err # rest)
      False [] ?h1)) = ?h1"
    using assms by (simp add: start_calm_history start_abort_history del: start.simps(2))
  have silent: "snd (snd (start (es @ Aside Abort # us) False [] ?h1)) =
      ?h1 @ (if fragments es \<noteq> []
             then [\<lparr>orole = OAssistant, ocontent = fragments es\<rparr>] else [])"
    using assms start_abort_history [of us "[]" False "fragments es" ?h1]
    by (simp add: start_calm_history del: start.simps(2))
  show ?thesis
    unfolding prompt_history using stop ended at_chunk at_failure silent by simp
qed

text \<open>C2, amended, at the fragments \<open>Hel\<close>, \<open>lo\<close>: a natural stop, and a cancellation
  met at a failure of the API's stream.\<close>

theorem prompt_commit_witness:
  "calm [Chunk ''Hel'' False] \<and> asides [Aside (Tick 5)]
   \<and> fst (snd (prompt ''hi'' False Resolves [Chunk ''Hel'' False, Chunk ''lo'' True] [])) =
       [\<lparr>orole = OUser, ocontent = ''hi''\<rparr>, \<lparr>orole = OAssistant, ocontent = ''Hello''\<rparr>]
   \<and> fst (snd (prompt ''hi'' False Resolves
         [Chunk ''Hel'' False, Aside Abort, Aside (Tick 5), Fails NotAnError] [])) =
       [\<lparr>orole = OUser, ocontent = ''hi''\<rparr>]"
  using prompt_commit [where es = "[Chunk ''Hel'' False]" and us = "[Aside (Tick 5)]"
      and t = "''hi''" and c = "''lo''" and rest = "[]" and h = "[]" and err = NotAnError]
  by simp

text \<open>
  C9. \<open>prompt\<close> pushes the user entry before the request goes out, so that the payload
  ends with it; however the call ends, the history afterwards starts with the old history
  and that entry; after a call that throws it is exactly that; and the payload of every
  later call on the same client starts with them too.
\<close>

theorem prompt_keeps_user_entry:
  "snd (snd (prompt t aborted res evs h)) = h @ [\<lparr>orole = OUser, ocontent = t\<rparr>]
   \<and> prefix (h @ [\<lparr>orole = OUser, ocontent = t\<rparr>])
        (fst (snd (prompt t aborted res evs h)))
   \<and> fst (snd (prompt t aborted (Rejects err) evs h)) =
        h @ [\<lparr>orole = OUser, ocontent = t\<rparr>]
   \<and> (\<forall>p \<in> set (snd (prompt_calls calls (fst (snd (prompt t aborted (Rejects err) evs h))))).
        prefix (h @ [\<lparr>orole = OUser, ocontent = t\<rparr>]) p)"
proof -
  have rej: "fst (snd (prompt t aborted (Rejects err) evs h)) =
        h @ [\<lparr>orole = OUser, ocontent = t\<rparr>]"
    by (simp add: prompt_def prompt_issue_def prompt_settle_def Let_def)
  show ?thesis
    using prompt_calls_prefix [of "h @ [\<lparr>orole = OUser, ocontent = t\<rparr>]"
        "h @ [\<lparr>orole = OUser, ocontent = t\<rparr>]" calls]
    by (simp add: prompt_payload prompt_prefix rej)
qed

text \<open>C9 at a call that fails on quota, followed by a call that succeeds.\<close>

theorem prompt_keeps_user_entry_witness:
  "fst (snd (prompt ''hi'' False (Rejects (JsError ''Error'' ''quota'')) [] [])) =
      [\<lparr>orole = OUser, ocontent = ''hi''\<rparr>]
   \<and> snd (prompt_calls [(''again'', False, Resolves, [Chunk ''ok'' True])]
        (fst (snd (prompt ''hi'' False (Rejects (JsError ''Error'' ''quota'')) [] [])))) =
      [[\<lparr>orole = OUser, ocontent = ''hi''\<rparr>, \<lparr>orole = OUser, ocontent = ''again''\<rparr>]]
   \<and> prefix [\<lparr>orole = OUser, ocontent = ''hi''\<rparr>]
        [\<lparr>orole = OUser, ocontent = ''hi''\<rparr>, \<lparr>orole = OUser, ocontent = ''again''\<rparr>]"
  using prompt_keeps_user_entry [where t = "''hi''" and aborted = False and h = "[]"
      and err = "JsError ''Error'' ''quota''" and evs = "[]"
      and calls = "[(''again'', False, Resolves, [Chunk ''ok'' True])]"]
  by (simp add: prompt_def prompt_issue_def prompt_settle_def request_payload_def Let_def)

section \<open>The Session Core: facts\<close>

lemma getErrorMessage_no_answer: "getErrorMessage (new_Error text_no_answer) = text_no_answer"
  by code_simp

lemma getErrorMessage_limit: "getErrorMessage (new_Error text_limit_reached) = text_limit"
  by code_simp

lemma not_says_aborted_no_answer: "\<not> says_aborted (new_Error text_no_answer)"
  by code_simp

lemma dropWhile_all_Nil: "(\<forall>x\<in>set (dropWhile P s). P x) \<longleftrightarrow> (\<forall>x\<in>set s. P x)"
proof
  assume a: "\<forall>x\<in>set (dropWhile P s). P x"
  have "dropWhile P s = []"
  proof (rule ccontr)
    assume n: "dropWhile P s \<noteq> []"
    then have "\<not> P (hd (dropWhile P s))" by (rule hd_dropWhile)
    moreover from n have "hd (dropWhile P s) \<in> set (dropWhile P s)" by simp
    ultimately show False using a by blast
  qed
  then show "\<forall>x\<in>set s. P x" by (simp add: dropWhile_eq_Nil_conv)
next
  assume "\<forall>x\<in>set s. P x"
  then show "\<forall>x\<in>set (dropWhile P s). P x" by (auto dest: set_dropWhileD)
qed

lemma trim_Nil_iff: "trim s = [] \<longleftrightarrow> (\<forall>c\<in>set s. is_space c)"
  by (simp add: trim_def dropWhile_eq_Nil_conv dropWhile_all_Nil)

lemma trim_Nil [simp]: "trim [] = []"
  by (simp add: trim_def)

lemma trim_append_Nil: "trim (a @ b) = [] \<longleftrightarrow> trim a = [] \<and> trim b = []"
  by (auto simp: trim_Nil_iff)

lemma saveMessages_frame [simp]:
  "messages (saveMessages ms s) = messages s" "loading (saveMessages ms s) = loading s"
  "history (saveMessages ms s) = history s" "requests (saveMessages ms s) = requests s"
  "now (saveMessages ms s) = now s"
  by (simp_all add: saveMessages_def)

lemma aside_step_frame [simp]:
  "loading (aside_step u s) = loading s"
  "history (aside_step u s) = history s" "requests (aside_step u s) = requests s"
  by (cases u; simp add: aside_step_def abortChatMessage_def Let_def)+

lemma aside_steps_frame [simp]:
  "loading (aside_steps us s) = loading s"
  "history (aside_steps us s) = history s" "requests (aside_steps us s) = requests s"
  by (induction us arbitrary: s; simp)+

lemma aside_steps_quiet:
  "Abort \<notin> set us \<Longrightarrow> messages (aside_steps us s) = messages s"
proof (induction us arbitrary: s)
  case (Cons u us)
  then show ?case by (cases u) (simp_all add: aside_step_def)
qed simp

lemma on_chunk_frame [simp]:
  "loading (on_chunk c s) = loading s" "now (on_chunk c s) = now s"
  "history (on_chunk c s) = history s" "requests (on_chunk c s) = requests s"
  by (simp_all add: on_chunk_def Let_def)

lemma read_loop_frame:
  "loading (snd (read_loop ds hc s)) = loading s \<and>
   history (snd (read_loop ds hc s)) = history s \<and>
   requests (snd (read_loop ds hc s)) = requests s"
  by (induction ds hc s rule: read_loop.induct) simp_all

lemma addErrorMessage_frame [simp]:
  "loading (addErrorMessage e s) = loading s" "now (addErrorMessage e s) = now s"
  "history (addErrorMessage e s) = history s" "requests (addErrorMessage e s) = requests s"
  by (simp_all add: addErrorMessage_def Let_def)

lemma catch_block_frame [simp]:
  "loading (catch_block um e s) = loading s" "now (catch_block um e s) = now s"
  "history (catch_block um e s) = history s" "requests (catch_block um e s) = requests s"
  by (simp_all add: catch_block_def Let_def)

lemma send_settle_requests: "requests (send_settle um pre res evs s) = requests s"
  by (cases res)
     (auto simp: send_settle_def Let_def prompt_settle_def finally_block_def read_loop_frame
        split: prod.splits stream_end.splits sum.splits
        dest: arg_cong [where f = "\<lambda>p. requests (snd p)"])

lemma send_settle_loading: "loading (send_settle um pre res evs s) = False"
  by (cases res)
     (auto simp: send_settle_def Let_def prompt_settle_def finally_block_def
        split: prod.splits stream_end.splits sum.splits)

lemma fragments_append [simp]: "fragments (es @ fs) = fragments es @ fragments fs"
  by (induction es rule: fragments.induct) simp_all

lemma passed_append [simp]: "passed (es @ fs) = passed es @ passed fs"
  by (induction es rule: passed.induct) simp_all

lemma calm_no_Abort: "calm es \<Longrightarrow> Aside Abort \<notin> set es"
  by (induction es rule: calm.induct) auto

lemma on_chunk_last:
  "messages s = ms @ [b] \<Longrightarrow> role b = Assistant \<Longrightarrow>
   messages (on_chunk c s) = ms @ [b\<lparr>content := content b @ c\<rparr>]"
  by (simp add: on_chunk_def Let_def)

lemma read_loop_passed:
  "Aside Abort \<notin> set es \<Longrightarrow> messages s = ms @ [b] \<Longrightarrow> role b = Assistant \<Longrightarrow>
   fst (read_loop (passed es) hc s) = (hc \<or> trim (fragments es) \<noteq> []) \<and>
   messages (snd (read_loop (passed es) hc s)) = ms @ [b\<lparr>content := content b @ fragments es\<rparr>]"
proof (induction es arbitrary: s b hc rule: passed.induct)
  case 1
  then show ?case by simp
next
  case (2 c stop evs)
  show ?case
  proof (cases "c = []")
    case True
    with 2 show ?thesis by simp
  next
    case False
    have m: "messages (on_chunk c s) = ms @ [b\<lparr>content := content b @ c\<rparr>]"
      using 2 by (simp add: on_chunk_last)
    have "Aside Abort \<notin> set evs" using 2 by simp
    from "2.IH" [OF this m, of "if trim c \<noteq> [] then True else hc"] 2 False
    show ?thesis by (auto simp: trim_append_Nil)
  qed
next
  case (3 err evs)
  then show ?case by simp
next
  case (4 u evs)
  then obtain n where u: "u = Tick n" by (cases u) auto
  have m: "messages (aside_step u s) = ms @ [b]"
    using 4 by (simp add: u aside_step_def)
  have "Aside Abort \<notin> set evs" using 4 by simp
  from "4.IH" [OF this m] 4 show ?case by simp
qed

lemma start_natural:
  "calm es \<Longrightarrow> fst (start es False acc h) = passed es \<and> fst (snd (start es False acc h)) = Closed"
  using start_calm [of es "[]" acc h] by simp

lemma start_stop:
  "calm es \<Longrightarrow>
   fst (start (es @ Chunk c True # rest) False acc h) = passed (es @ [Chunk c True]) \<and>
   fst (snd (start (es @ Chunk c True # rest) False acc h)) = Closed"
  by (simp add: start_calm)

lemma pop_blank_snoc:
  "role b = Assistant \<Longrightarrow> trim (content b) = [] \<Longrightarrow> pop_blank (ms @ [b]) = ms"
  by (simp add: pop_blank_def)

lemma send_settle_closed:
  assumes pre: "Abort \<notin> set pre" and es: "Aside Abort \<notin> set es"
    and ds: "fst (start evs False [] (history s)) = passed es"
    and cl: "fst (snd (start evs False [] (history s))) = Closed"
  shows "messages (send_settle um pre Resolves evs s) =
           um @ [if trim (fragments es) \<noteq> []
                 then \<lparr>role = Assistant, content = fragments es,
                       timestamp = now (aside_steps pre s), error = None\<rparr>
                 else \<lparr>role = Error, content = text_no_answer,
                       timestamp = now (send_settle um pre Resolves evs s),
                       error = Some True\<rparr>]"
proof -
  let ?s1 = "aside_steps pre s"
  let ?bot = "\<lparr>role = Assistant, content = [], timestamp = now ?s1, error = None\<rparr>"
  obtain h' where st: "start evs False [] (history s) = (passed es, Closed, h')"
    using ds cl by (cases "start evs False [] (history s)") auto
  let ?s2 = "?s1\<lparr>history := h', messages := um @ [?bot]\<rparr>"
  obtain hc s3 where rl: "read_loop (passed es) False ?s2 = (hc, s3)"
    by (cases "read_loop (passed es) False ?s2") auto
  have "messages ?s2 = um @ [?bot]" by simp
  from read_loop_passed [OF es this, of False] rl
  have hc: "hc = (trim (fragments es) \<noteq> [])"
    and m3: "messages s3 = um @ [?bot\<lparr>content := fragments es\<rparr>]"
    by simp_all
  have unfold: "send_settle um pre Resolves evs s =
      (if \<not> hc then finally_block (catch_block um (new_Error text_no_answer) s3)
       else finally_block s3)"
    using pre st rl by (simp add: send_settle_def prompt_settle_def Let_def)
  show ?thesis
  proof (cases hc)
    case True
    with unfold hc m3 show ?thesis by (simp add: finally_block_def)
  next
    case False
    then have blank: "trim (fragments es) = []" using hc by simp
    have "pop_blank (messages s3) = um"
      using m3 blank by (simp add: pop_blank_snoc)
    then show ?thesis
      using False unfold blank
      by (simp add: finally_block_def catch_block_def not_says_aborted_no_answer
          addErrorMessage_def Let_def getErrorMessage_no_answer)
  qed
qed

lemma send_issue_simps:
  "messages (send_issue t s) = messages s @ [userMessage t s]"
  "requests (send_issue t s) = requests s @ [history s @ [\<lparr>orole = OUser, ocontent = t\<rparr>]]"
  "history (send_issue t s) = history s @ [\<lparr>orole = OUser, ocontent = t\<rparr>]"
  "now (send_issue t s) = now s"
  by (simp_all add: send_issue_def prompt_issue_def Let_def request_payload_id)

lemma initial_simps [simp]:
  "messages initial = []" "loading initial = False" "storage initial = None"
  "history initial = []" "requests initial = []" "now initial = 0"
  by (simp_all add: initial_def)

lemma sendMessage_completes:
  assumes pass: "\<not> int (length (messages s)) > limit" and pre: "Abort \<notin> set pre"
    and es: "Aside Abort \<notin> set es"
    and ds: "\<And>h. fst (start evs False [] h) = passed es"
    and cl: "\<And>h. fst (snd (start evs False [] h)) = Closed"
  shows "messages (sendMessage limit t pre Resolves evs s) =
           messages s @
           [userMessage t s,
            if trim (fragments es) \<noteq> []
            then \<lparr>role = Assistant, content = fragments es,
                  timestamp = now (aside_steps pre (send_issue t s)), error = None\<rparr>
            else \<lparr>role = Error, content = text_no_answer,
                  timestamp = now (sendMessage limit t pre Resolves evs s),
                  error = Some True\<rparr>]"
  using send_settle_closed [OF pre es ds cl, of "messages s @ [userMessage t s]" "send_issue t s"]
    pass
  by (simp add: sendMessage_def)

lemma sendMessage_loading:
  "\<not> int (length (messages s)) > limit \<Longrightarrow> loading (sendMessage limit t pre res evs s) = False"
  by (simp add: sendMessage_def send_settle_loading)




lemma pop_blank_other: "ms \<noteq> [] \<Longrightarrow> role (last ms) \<noteq> Assistant \<Longrightarrow> pop_blank ms = ms"
  by (simp add: pop_blank_def)


lemma role_of_name_role_name: "role_of_name (role_name r) = Some r"
  by (cases r) (simp_all add: role_of_name_def role_name_def)

lemma as_message_stringify: "as_message (stringify_message m) = Some m"
  by (cases "error m")
     (simp_all add: as_message_def stringify_message_def role_of_name_role_name)

lemma as_messages_stringify: "as_messages (map stringify_message ms) = Some ms"
  by (induction ms) (simp_all add: as_messages_def as_message_stringify)

lemma mount_frame:
  "mount s = Some s' \<Longrightarrow> history s' = history s \<and> requests s' = requests s"
  by (auto simp: mount_def split: json.splits if_splits option.splits)

text \<open>
  Two cancellations that are reported once. While the request is pending, \<open>prompt\<close> throws
  the aborted error and the cancellation branch of the \<open>catch\<close> block appends nothing to the
  notice of \<open>abortChatMessage\<close>. After a fragment has arrived, the stream is closed with
  \<open>hasContent\<close> true and nothing is thrown.
\<close>

lemma says_aborted_msg_aborted: "says_aborted (new_Error msg_aborted)"
  by code_simp

lemma cancel_while_pending:
  assumes "\<not> int (length (messages s)) > limit"
  shows "messages (sendMessage limit t [Abort] (Rejects err) evs s) =
           messages s @
           [userMessage t s,
            \<lparr>role = Error, content = text_cancelled, timestamp = now s, error = Some True\<rparr>]"
proof -
  let ?M = "messages s @
      [userMessage t s,
       \<lparr>role = Error, content = text_cancelled, timestamp = now s, error = Some True\<rparr>]"
  have "pop_blank ?M = ?M"
    by (intro pop_blank_other) simp_all
  then show ?thesis
    using assms
    by (simp add: sendMessage_def send_settle_def prompt_settle_def prompt_catch_def Let_def
        finally_block_def catch_block_def says_aborted_msg_aborted aside_step_def
        abortChatMessage_def send_issue_simps)
qed

lemma cancel_after_content:
  "messages (sendMessage 10 ''hi'' [] Resolves [Chunk ''Hel'' False, Aside Abort] initial) =
     [\<lparr>role = User, content = ''hi'', timestamp = 0, error = None\<rparr>,
      \<lparr>role = Assistant, content = ''Hel'', timestamp = 0, error = None\<rparr>,
      \<lparr>role = Error, content = text_cancelled, timestamp = 0, error = Some True\<rparr>]"
  by code_simp

section \<open>Properties of the Session Core\<close>

text \<open>
  C3. \<open>sendMessage\<close> is rejected exactly when the number of prior messages is strictly
  greater than \<open>limit\<close>. When it is, the state afterwards is the state before with one
  error message (the limit-reached text) appended and the store mirroring it: \<open>loading\<close>,
  the client's history and the log of requests are as before, so no request went out.
  When it is not, one request goes out.
\<close>

theorem sendMessage_limit:
  "(int (length (messages s)) > limit \<longrightarrow>
      sendMessage limit t pre res evs s =
        s\<lparr>messages := messages s @
              [\<lparr>role = Error, content = text_limit, timestamp = now s, error = Some True\<rparr>],
          storage := storage_saveMessages (filter (\<lambda>m. role m \<noteq> System)
              (messages s @
               [\<lparr>role = Error, content = text_limit, timestamp = now s,
                 error = Some True\<rparr>]))\<rparr>)
   \<and> (\<not> int (length (messages s)) > limit \<longrightarrow>
        requests (sendMessage limit t pre res evs s) =
          requests s @ [history s @ [\<lparr>orole = OUser, ocontent = t\<rparr>]])
   \<and> ((requests (sendMessage limit t pre res evs s) = requests s)
        = (int (length (messages s)) > limit))"
  by (simp add: sendMessage_def addErrorMessage_def saveMessages_def Let_def
      getErrorMessage_limit send_settle_requests send_issue_simps)

text \<open>
  C3 at \<open>limit = 2\<close> with three prior messages: the send is rejected.
\<close>

theorem sendMessage_limit_witness:
  "int (length [\<lparr>role = User, content = ''a'', timestamp = 1, error = None\<rparr>,
                \<lparr>role = Assistant, content = ''b'', timestamp = 2, error = None\<rparr>,
                \<lparr>role = User, content = ''c'', timestamp = 3, error = None\<rparr>]) > 2
   \<and> messages (sendMessage 2 ''d'' [] Resolves [Chunk ''e'' True]
        (initial\<lparr>messages :=
           [\<lparr>role = User, content = ''a'', timestamp = 1, error = None\<rparr>,
            \<lparr>role = Assistant, content = ''b'', timestamp = 2, error = None\<rparr>,
            \<lparr>role = User, content = ''c'', timestamp = 3, error = None\<rparr>], now := 4\<rparr>)) =
       [\<lparr>role = User, content = ''a'', timestamp = 1, error = None\<rparr>,
        \<lparr>role = Assistant, content = ''b'', timestamp = 2, error = None\<rparr>,
        \<lparr>role = User, content = ''c'', timestamp = 3, error = None\<rparr>,
        \<lparr>role = Error, content = text_limit, timestamp = 4, error = Some True\<rparr>]
   \<and> requests (sendMessage 2 ''d'' [] Resolves [Chunk ''e'' True]
        (initial\<lparr>messages :=
           [\<lparr>role = User, content = ''a'', timestamp = 1, error = None\<rparr>,
            \<lparr>role = Assistant, content = ''b'', timestamp = 2, error = None\<rparr>,
            \<lparr>role = User, content = ''c'', timestamp = 3, error = None\<rparr>], now := 4\<rparr>)) = []"
  using sendMessage_limit [where limit = 2 and t = "''d''" and pre = "[]" and res = Resolves
      and evs = "[Chunk ''e'' True]"
      and s = "initial\<lparr>messages :=
           [\<lparr>role = User, content = ''a'', timestamp = 1, error = None\<rparr>,
            \<lparr>role = Assistant, content = ''b'', timestamp = 2, error = None\<rparr>,
            \<lparr>role = User, content = ''c'', timestamp = 3, error = None\<rparr>], now := 4\<rparr>"]
  by (simp add: initial_def)

text \<open>
  The empty completion of a send that the user does not cancel. The send passes the limit
  check and its stream completes (by the end of the API's stream, or by a chunk with
  \<open>finish_reason\<close> stop) without a single content fragment: the placeholder is gone, the
  messages of the turn are the user message and one error message, the empty-completion
  one, and \<open>loading\<close> ends false.
\<close>

lemma empty_completion:
  assumes "\<not> int (length (messages s)) > limit" and "Abort \<notin> set pre"
    and "calm es" and "fragments es = []"
  shows "messages (sendMessage limit t pre Resolves es s) =
           messages s @
           [userMessage t s,
            \<lparr>role = Error, content = text_no_answer,
              timestamp = now (sendMessage limit t pre Resolves es s), error = Some True\<rparr>]
       \<and> loading (sendMessage limit t pre Resolves es s) = False
       \<and> messages (sendMessage limit t pre Resolves (es @ Chunk [] True # rest) s) =
           messages s @
           [userMessage t s,
            \<lparr>role = Error, content = text_no_answer,
              timestamp = now (sendMessage limit t pre Resolves (es @ Chunk [] True # rest) s),
              error = Some True\<rparr>]
       \<and> loading (sendMessage limit t pre Resolves (es @ Chunk [] True # rest) s) = False"
proof -
  have a: "Aside Abort \<notin> set es" using assms(3) by (rule calm_no_Abort)
  then have b: "Aside Abort \<notin> set (es @ [Chunk [] True])" by simp
  have ended: "messages (sendMessage limit t pre Resolves es s) =
           messages s @
           [userMessage t s,
            \<lparr>role = Error, content = text_no_answer,
              timestamp = now (sendMessage limit t pre Resolves es s), error = Some True\<rparr>]"
    using sendMessage_completes [OF assms(1,2) a, of es t] assms(3,4)
    by (simp add: start_natural)
  have stopped: "messages (sendMessage limit t pre Resolves (es @ Chunk [] True # rest) s) =
           messages s @
           [userMessage t s,
            \<lparr>role = Error, content = text_no_answer,
              timestamp = now (sendMessage limit t pre Resolves (es @ Chunk [] True # rest) s),
              error = Some True\<rparr>]"
    using sendMessage_completes [OF assms(1,2) b, of "es @ Chunk [] True # rest" t] assms(3,4)
    by (simp add: start_stop)
  show ?thesis
    using ended stopped assms(1) by (simp add: sendMessage_loading)
qed

text \<open>
  The same at a stream of two chunks without content.
\<close>

lemma empty_completion_at_two_chunks:
  "\<not> int (length (messages initial)) > 10 \<and> Abort \<notin> set [Tick 3]
   \<and> calm [Chunk [] False, Aside (Tick 7)] \<and> fragments [Chunk [] False, Aside (Tick 7)] = []
   \<and> messages (sendMessage 10 ''hi'' [Tick 3] Resolves
        ([Chunk [] False, Aside (Tick 7)] @ Chunk [] True # []) initial) =
      [\<lparr>role = User, content = ''hi'', timestamp = 0, error = None\<rparr>,
       \<lparr>role = Error, content = text_no_answer, timestamp = 7, error = Some True\<rparr>]
   \<and> loading (sendMessage 10 ''hi'' [Tick 3] Resolves
        ([Chunk [] False, Aside (Tick 7)] @ Chunk [] True # []) initial) = False"
proof -
  have n: "now (sendMessage 10 ''hi'' [Tick 3] Resolves
        [Chunk [] False, Aside (Tick 7), Chunk [] True] initial) = 7"
    by code_simp
  show ?thesis
    using empty_completion [where limit = 10 and s = initial and pre = "[Tick 3]"
        and es = "[Chunk [] False, Aside (Tick 7)]" and t = "''hi''" and rest = "[]"]
    by (simp add: n userMessage_def)
qed

text \<open>
  C5, on the code. A send passes the limit check, the stream opens, and the user cancels
  before any fragment; the API's stream ends. The stream is closed with zero content
  fragments, and the error thrown is the empty-completion one, which the \<open>catch\<close> block
  does not take for a cancellation. Yet the placeholder is not removed, since the last
  message is the cancellation notice, and the notice and the empty-completion error both
  stay in the session, whatever the messages before and the limit.
\<close>

theorem cancelled_empty_completion:
  assumes "\<not> int (length (messages s)) > limit"
  shows "messages (sendMessage limit t [] Resolves [Aside Abort] s) =
           messages s @
           [userMessage t s,
            \<lparr>role = Assistant, content = [], timestamp = now s, error = None\<rparr>,
            \<lparr>role = Error, content = text_cancelled, timestamp = now s, error = Some True\<rparr>,
            \<lparr>role = Error, content = text_no_answer, timestamp = now s, error = Some True\<rparr>]
       \<and> loading (sendMessage limit t [] Resolves [Aside Abort] s) = False
       \<and> fst (start [Aside Abort] False [] (history (send_issue t s))) = [Outside Abort]
       \<and> fst (snd (start [Aside Abort] False [] (history (send_issue t s)))) = Closed
       \<and> says_aborted (new_Error text_no_answer) = False"
proof -
  let ?M = "messages s @
      [userMessage t s,
       \<lparr>role = Assistant, content = [], timestamp = now s, error = None\<rparr>,
       \<lparr>role = Error, content = text_cancelled, timestamp = now s, error = Some True\<rparr>]"
  have p: "pop_blank ?M = ?M"
    by (intro pop_blank_other) simp_all
  have m: "messages (sendMessage limit t [] Resolves [Aside Abort] s) =
      ?M @ [\<lparr>role = Error, content = text_no_answer, timestamp = now s, error = Some True\<rparr>]"
    using assms p
    by (simp add: sendMessage_def send_settle_def prompt_settle_def Let_def
        finally_block_def catch_block_def not_says_aborted_no_answer aside_step_def
        abortChatMessage_def addErrorMessage_def getErrorMessage_no_answer send_issue_simps)
  show ?thesis
    using m assms by (simp add: sendMessage_loading not_says_aborted_no_answer)
qed

text \<open>C5, on the code, after one earlier exchange.\<close>

theorem cancelled_empty_completion_witness:
  "\<not> int (length [\<lparr>role = User, content = ''a'', timestamp = 1, error = None\<rparr>,
          \<lparr>role = Assistant, content = ''b'', timestamp = 2, error = None\<rparr>]) > 10
   \<and> messages (sendMessage 10 ''c'' [] Resolves [Aside Abort]
        (initial\<lparr>messages :=
           [\<lparr>role = User, content = ''a'', timestamp = 1, error = None\<rparr>,
            \<lparr>role = Assistant, content = ''b'', timestamp = 2, error = None\<rparr>],
          now := 3\<rparr>)) =
      [\<lparr>role = User, content = ''a'', timestamp = 1, error = None\<rparr>,
       \<lparr>role = Assistant, content = ''b'', timestamp = 2, error = None\<rparr>,
       \<lparr>role = User, content = ''c'', timestamp = 3, error = None\<rparr>,
       \<lparr>role = Assistant, content = [], timestamp = 3, error = None\<rparr>,
       \<lparr>role = Error, content = text_cancelled, timestamp = 3, error = Some True\<rparr>,
       \<lparr>role = Error, content = text_no_answer, timestamp = 3, error = Some True\<rparr>]
   \<and> loading (sendMessage 10 ''c'' [] Resolves [Aside Abort]
        (initial\<lparr>messages :=
           [\<lparr>role = User, content = ''a'', timestamp = 1, error = None\<rparr>,
            \<lparr>role = Assistant, content = ''b'', timestamp = 2, error = None\<rparr>],
          now := 3\<rparr>)) = False"
  using cancelled_empty_completion [where limit = 10 and t = "''c''"
      and s = "initial\<lparr>messages :=
           [\<lparr>role = User, content = ''a'', timestamp = 1, error = None\<rparr>,
            \<lparr>role = Assistant, content = ''b'', timestamp = 2, error = None\<rparr>],
          now := 3\<rparr>"]
  by (simp add: userMessage_def)



text \<open>
  C1, on the code. The user cancels after the stream has been opened and before any
  fragment; then the API's stream ends, or throws, or delivers a late chunk. Each time the
  stream is closed, \<open>hasContent\<close> is false, and the failure is the empty-completion one:
  the placeholder stays (the last message is the cancellation notice), and a second error
  message follows the notice.
\<close>

theorem abort_before_content:
  "messages (sendMessage 10 ''hi'' [] Resolves [Aside Abort] initial) =
     [\<lparr>role = User, content = ''hi'', timestamp = 0, error = None\<rparr>,
      \<lparr>role = Assistant, content = [], timestamp = 0, error = None\<rparr>,
      \<lparr>role = Error, content = text_cancelled, timestamp = 0, error = Some True\<rparr>,
      \<lparr>role = Error, content = text_no_answer, timestamp = 0, error = Some True\<rparr>]
   \<and> messages (sendMessage 10 ''hi'' [] Resolves
        [Aside Abort, Fails (JsError ''AbortError'' ''The user aborted a request.'')] initial) =
     [\<lparr>role = User, content = ''hi'', timestamp = 0, error = None\<rparr>,
      \<lparr>role = Assistant, content = [], timestamp = 0, error = None\<rparr>,
      \<lparr>role = Error, content = text_cancelled, timestamp = 0, error = Some True\<rparr>,
      \<lparr>role = Error, content = text_no_answer, timestamp = 0, error = Some True\<rparr>]
   \<and> messages (sendMessage 10 ''hi'' [] Resolves [Aside Abort, Chunk ''late'' False] initial) =
     [\<lparr>role = User, content = ''hi'', timestamp = 0, error = None\<rparr>,
      \<lparr>role = Assistant, content = [], timestamp = 0, error = None\<rparr>,
      \<lparr>role = Error, content = text_cancelled, timestamp = 0, error = Some True\<rparr>,
      \<lparr>role = Error, content = text_no_answer, timestamp = 0, error = Some True\<rparr>]"
  by code_simp




text \<open>
  C6, as stated, fails. The store holds a user message \<open>a\<close> and an assistant message
  \<open>b\<close>; the hook mounts and rehydrates them, \<open>init\<close> runs with no prompt file, and \<open>c\<close> is
  sent. The transcript at that point is \<open>a\<close>, \<open>b\<close>, \<open>c\<close>; the payload is \<open>c\<close> alone.
\<close>

theorem payload_counterexample:
  "mount (initial\<lparr>storage := storage_saveMessages
        [\<lparr>role = User, content = ''a'', timestamp = 1, error = None\<rparr>,
         \<lparr>role = Assistant, content = ''b'', timestamp = 2, error = None\<rparr>]\<rparr>) =
     Some (initial\<lparr>storage := storage_saveMessages
        [\<lparr>role = User, content = ''a'', timestamp = 1, error = None\<rparr>,
         \<lparr>role = Assistant, content = ''b'', timestamp = 2, error = None\<rparr>],
       messages :=
        [\<lparr>role = User, content = ''a'', timestamp = 1, error = None\<rparr>,
         \<lparr>role = Assistant, content = ''b'', timestamp = 2, error = None\<rparr>]\<rparr>)
   \<and> map shown
       ([\<lparr>role = User, content = ''a'', timestamp = 1, error = None\<rparr>,
         \<lparr>role = Assistant, content = ''b'', timestamp = 2, error = None\<rparr>]
        @ [\<lparr>role = User, content = ''c'', timestamp = 0, error = None\<rparr>]) =
     [(''user'', ''a''), (''assistant'', ''b''), (''user'', ''c'')]
   \<and> map (map sent)
       (requests (sendMessage 10 ''c'' [] Resolves [Chunk ''ok'' True]
          (useChatbot_init None
            (initial\<lparr>storage := storage_saveMessages
               [\<lparr>role = User, content = ''a'', timestamp = 1, error = None\<rparr>,
                \<lparr>role = Assistant, content = ''b'', timestamp = 2, error = None\<rparr>],
              messages :=
               [\<lparr>role = User, content = ''a'', timestamp = 1, error = None\<rparr>,
                \<lparr>role = Assistant, content = ''b'', timestamp = 2, error = None\<rparr>]\<rparr>)))) =
     [[(''user'', ''c'')]]"
proof -
  have m: "mount (initial\<lparr>storage := storage_saveMessages
        [\<lparr>role = User, content = ''a'', timestamp = 1, error = None\<rparr>,
         \<lparr>role = Assistant, content = ''b'', timestamp = 2, error = None\<rparr>]\<rparr>) =
     Some (initial\<lparr>storage := storage_saveMessages
        [\<lparr>role = User, content = ''a'', timestamp = 1, error = None\<rparr>,
         \<lparr>role = Assistant, content = ''b'', timestamp = 2, error = None\<rparr>],
       messages :=
        [\<lparr>role = User, content = ''a'', timestamp = 1, error = None\<rparr>,
         \<lparr>role = Assistant, content = ''b'', timestamp = 2, error = None\<rparr>]\<rparr>)"
    by (simp add: mount_def getMessages_def item_or_default_def JSON_parse_def
        storage_saveMessages_def JSON_stringify_def
        as_messages_stringify [of "[a, b]" for a b, simplified])
  have r: "requests (sendMessage 10 ''c'' [] Resolves [Chunk ''ok'' True]
          (useChatbot_init None
            (initial\<lparr>storage := storage_saveMessages
               [\<lparr>role = User, content = ''a'', timestamp = 1, error = None\<rparr>,
                \<lparr>role = Assistant, content = ''b'', timestamp = 2, error = None\<rparr>],
              messages :=
               [\<lparr>role = User, content = ''a'', timestamp = 1, error = None\<rparr>,
                \<lparr>role = Assistant, content = ''b'', timestamp = 2, error = None\<rparr>]\<rparr>))) =
      [[\<lparr>orole = OUser, ocontent = ''c''\<rparr>]]"
    by (simp add: sendMessage_def send_settle_requests send_issue_simps useChatbot_init_def
        init_def)
  show ?thesis
    unfolding m r by (simp add: shown_def sent_def role_name_def openai_role_name_def)
qed

text \<open>
  C6, amended. The payload of a send is the history of the Completion Client (what
  \<open>init\<close> seeded and what earlier calls of \<open>prompt\<close> left) followed by the new user entry,
  whatever the session's \<open>messages\<close> are; mounting, which rehydrates \<open>messages\<close> from the
  store, leaves that history as it is.
\<close>

theorem payload_is_client_history:
  "(\<not> int (length ms) > limit \<longrightarrow>
      requests (sendMessage limit t pre res evs (s\<lparr>messages := ms\<rparr>)) =
        requests s @ [history s @ [\<lparr>orole = OUser, ocontent = t\<rparr>]])
   \<and> (\<forall>s'. mount s = Some s' \<longrightarrow> history s' = history s \<and> requests s' = requests s)"
  using mount_frame [of s]
  by (simp add: sendMessage_def send_settle_requests send_issue_simps)

text \<open>
  C6, amended, at the rehydrated session of the counterexample.
\<close>

theorem payload_is_client_history_witness:
  "\<not> int (length [\<lparr>role = User, content = ''a'', timestamp = 1, error = None\<rparr>,
          \<lparr>role = Assistant, content = ''b'', timestamp = 2, error = None\<rparr>]) > 10
   \<and> requests (sendMessage 10 ''c'' [] Resolves [Chunk ''ok'' True]
        (useChatbot_init (Some ''Be brief.'') initial
          \<lparr>messages :=
             [\<lparr>role = User, content = ''a'', timestamp = 1, error = None\<rparr>,
              \<lparr>role = Assistant, content = ''b'', timestamp = 2, error = None\<rparr>]\<rparr>)) =
      [[\<lparr>orole = OSystem, ocontent = ''Be brief.''\<rparr>, \<lparr>orole = OUser, ocontent = ''c''\<rparr>]]"
  using payload_is_client_history [where limit = 10 and t = "''c''" and pre = "[]"
      and res = Resolves and evs = "[Chunk ''ok'' True]"
      and s = "useChatbot_init (Some ''Be brief.'') initial"
      and ms = "[\<lparr>role = User, content = ''a'', timestamp = 1, error = None\<rparr>,
                \<lparr>role = Assistant, content = ''b'', timestamp = 2, error = None\<rparr>]"]
  by (simp add: useChatbot_init_def init_def)

text \<open>
  C7, as stated, fails. The stored text \<open>{}\<close> is valid JSON: \<open>load\<close> returns the parsed
  object, which is neither a message sequence nor the empty sequence. So it is with the
  stored text \<open>[1]\<close>: the array returned holds no message.
\<close>

theorem getMessages_counterexample:
  "getMessages (Some (Valid (JObject []))) = JObject []
   \<and> getMessages (Some (Valid (JArray [JNumber 1]))) = JArray [JNumber 1]
   \<and> as_messages [JNumber 1] = None"
  by (simp add: getMessages_def item_or_default_def JSON_parse_def as_messages_def
      as_message_def)

text \<open>
  C7, amended. \<open>load\<close> returns a value and never throws: the empty array when the key
  is absent, the stored text is empty or is not JSON; otherwise what \<open>JSON.parse\<close> makes of
  the text, which after \<open>saveMessages\<close> is the saved sequence without its system messages.
\<close>

theorem getMessages_soft:
  "getMessages None = JArray []
   \<and> getMessages (Some EmptyText) = JArray []
   \<and> getMessages (Some Invalid) = JArray []
   \<and> getMessages (Some (Valid v)) = v
   \<and> getMessages (storage (saveMessages ms s)) =
       JArray (map stringify_message (filter (\<lambda>m. role m \<noteq> System) ms))
   \<and> as_messages (map stringify_message (filter (\<lambda>m. role m \<noteq> System) ms)) =
       Some (filter (\<lambda>m. role m \<noteq> System) ms)"
  by (simp add: getMessages_def item_or_default_def JSON_parse_def saveMessages_def
      storage_saveMessages_def JSON_stringify_def as_messages_stringify)

text \<open>
  C7, amended, after saving a system, a user and an error message.
\<close>

theorem getMessages_soft_witness:
  "getMessages (storage (saveMessages
      [\<lparr>role = System, content = ''s'', timestamp = 0, error = None\<rparr>,
       \<lparr>role = User, content = ''a'', timestamp = 1, error = None\<rparr>,
       \<lparr>role = Error, content = ''e'', timestamp = 2, error = Some True\<rparr>] initial)) =
     JArray
      [JObject [(''role'', JString ''user''), (''content'', JString ''a''),
                (''timestamp'', JNumber 1)],
       JObject [(''role'', JString ''error''), (''content'', JString ''e''),
                (''timestamp'', JNumber 2), (''error'', JBool True)]]
   \<and> getMessages (Some Invalid) = JArray []"
  using getMessages_soft [where s = initial and ms =
      "[\<lparr>role = System, content = ''s'', timestamp = 0, error = None\<rparr>,
        \<lparr>role = User, content = ''a'', timestamp = 1, error = None\<rparr>,
        \<lparr>role = Error, content = ''e'', timestamp = 2, error = Some True\<rparr>]"]
  by (simp add: stringify_message_def role_name_def)

end
